theory Spec2Isabelle
  imports Main "HOL-Library.State_Monad" "HOL-Library.Sublist"
begin

section \<open>JavaScript values reaching the query builder\<close>

text \<open>
  The setters of \<^verbatim>\<open>OGMNeoRelationQuery\<close> inspect the run-time type of their
  arguments, so the arguments are modelled as a datatype of JavaScript values.
  A number whose value is integral is \<open>JInt\<close>; \<open>JNaN\<close> is the number NaN and
  \<open>JOtherNum\<close> any other number (a fraction or an infinity). \<open>JStr\<close> is a
  string. \<open>JWhere r\<close> is a reference to the \<^verbatim>\<open>OGMNeoWhere\<close> instance
  at address \<open>r\<close>; \<open>JObject\<close> is any other object. An array is taken by value:
  the builder never writes to one.
\<close>

datatype jsval =
    JUndefined
  | JNull
  | JBool bool
  | JInt int
  | JNaN
  | JOtherNum
  | JStr string
  | JArr "jsval list"
  | JWhere nat
  | JObject

text \<open>lodash's \<^verbatim>\<open>_.isInteger\<close> and \<^verbatim>\<open>_.isString\<close>.\<close>

fun isInteger :: "jsval \<Rightarrow> bool" where
  "isInteger (JInt i) = True"
| "isInteger v = False"

fun isString :: "jsval \<Rightarrow> bool" where
  "isString (JStr s) = True"
| "isString v = False"

text \<open>The test \<^verbatim>\<open>v == null\<close>, true of \<^verbatim>\<open>null\<close> and \<^verbatim>\<open>undefined\<close> only.\<close>

fun looselyNull :: "jsval \<Rightarrow> bool" where
  "looselyNull JUndefined = True"
| "looselyNull JNull = True"
| "looselyNull v = False"

text \<open>The test \<^verbatim>\<open>v instanceof OGMNeoWhere\<close>.\<close>

fun instanceofWhere :: "jsval \<Rightarrow> bool" where
  "instanceofWhere (JWhere r) = True"
| "instanceofWhere v = False"

text \<open>JavaScript truthiness, as used by \<^verbatim>\<open>(x) ? a : b\<close> and \<^verbatim>\<open>!x\<close>.\<close>

fun truthy :: "jsval \<Rightarrow> bool" where
  "truthy JUndefined = False"
| "truthy JNull = False"
| "truthy (JBool b) = b"
| "truthy (JInt i) = (i \<noteq> 0)"
| "truthy JNaN = False"
| "truthy JOtherNum = True"
| "truthy (JStr s) = (s \<noteq> [])"
| "truthy (JArr xs) = True"
| "truthy (JWhere r) = True"
| "truthy JObject = True"

text \<open>A parameter default \<^verbatim>\<open>f(x = d)\<close> replaces exactly \<^verbatim>\<open>undefined\<close>.\<close>

definition withDefault :: "jsval \<Rightarrow> jsval \<Rightarrow> jsval" where
  "withDefault v d = (if v = JUndefined then d else v)"

subsection \<open>Numbers in template literals\<close>

text \<open>
  \<^verbatim>\<open>`${n}`\<close> for an integral number \<open>n\<close> is its decimal numeral, with a minus
  sign when negative (for magnitudes below \<open>10^21\<close>, where JavaScript switches to
  exponent notation).
\<close>

definition digitChar :: "nat \<Rightarrow> char" where
  "digitChar d = ''0123456789'' ! d"

function digits :: "nat \<Rightarrow> string" where
  "digits n = (if n < 10 then [digitChar n] else digits (n div 10) @ [digitChar (n mod 10)])"
  by pat_completeness auto
termination
  by (relation "measure id") auto

declare digits.simps [simp del]

definition numberToString :: "int \<Rightarrow> string" where
  "numberToString i = (if i < 0 then CHR ''-'' # digits (nat (- i)) else digits (nat i))"

text \<open>\<^verbatim>\<open>Array.prototype.join\<close> on an array of strings.\<close>

fun join :: "string \<Rightarrow> string list \<Rightarrow> string" where
  "join sep [] = []"
| "join sep [x] = x"
| "join sep (x # y # ys) = x @ sep @ join sep (y # ys)"

section \<open>Filter objects\<close>

text \<open>
  \<^verbatim>\<open>ogmneo-where.js\<close> is not among the sources. The builder uses two members of
  an \<^verbatim>\<open>OGMNeoWhere\<close> instance only: it assigns \<^verbatim>\<open>variable\<close> and it reads
  \<^verbatim>\<open>clause\<close>. A filter object is therefore taken as a parameter: the pattern
  variable it is currently scoped to, and the rendering of its clause for a given
  pattern variable.
\<close>

record whereObj =
  variable :: string
  render :: "string \<Rightarrow> string"

definition clause :: "whereObj \<Rightarrow> string" where
  "clause w = render w (variable w)"

section \<open>Property projections\<close>

text \<open>
  Modelled from the spec: \<^verbatim>\<open>ogmneo-parse.js\<close> is not among the sources.
  \<^verbatim>\<open>isValidPropertiesArray(value)\<close> is true when the value is a non-empty string
  or a non-empty sequence of strings.
\<close>

fun isValidPropertiesArray :: "jsval \<Rightarrow> bool" where
  "isValidPropertiesArray (JStr s) = (s \<noteq> [])"
| "isValidPropertiesArray (JArr xs) = (xs \<noteq> [] \<and> list_all isString xs)"
| "isValidPropertiesArray v = False"

text \<open>
  Modelled from the spec: \<^verbatim>\<open>parsePropertiesArray(value, variable)\<close> renders the
  value into a comma-joined list of \<^verbatim>\<open>variable.property\<close> tokens: a single string
  becomes one token, a sequence becomes one token per element, in input order.
  The spec says nothing about values that are not valid property arrays, and the
  builder never passes one; \<open>propertyNames\<close> yields no name there.
\<close>

fun stringsOf :: "jsval list \<Rightarrow> string list" where
  "stringsOf [] = []"
| "stringsOf (JStr s # vs) = s # stringsOf vs"
| "stringsOf (v # vs) = stringsOf vs"

fun propertyNames :: "jsval \<Rightarrow> string list" where
  "propertyNames (JStr s) = [s]"
| "propertyNames (JArr xs) = stringsOf xs"
| "propertyNames v = []"

definition parsePropertiesArray :: "jsval \<Rightarrow> string \<Rightarrow> string" where
  "parsePropertiesArray v var = join '', '' (map (\<lambda>p. var @ ''.'' @ p) (propertyNames v))"

section \<open>The state of a query builder\<close>

text \<open>
  A field that was never assigned is \<^verbatim>\<open>undefined\<close>: \<open>None\<close> for the fields that
  only ever receive a value of one type. The three filter fields receive
  \<^verbatim>\<open>undefined\<close>, \<^verbatim>\<open>null\<close> or a reference to a filter object.
\<close>

datatype whereRef = WUndefined | WNull | WRef nat

datatype direction = ASC | DESC

fun directionKeyword :: "direction \<Rightarrow> string" where
  "directionKeyword ASC = ''ASC''"
| "directionKeyword DESC = ''DESC''"

text \<open>
  The object literal stored in \<^verbatim>\<open>_orderBy\<close>. \<^verbatim>\<open>descOrderBy\<close> stores no
  \<^verbatim>\<open>startNodeProperties\<close> and no \<^verbatim>\<open>endNodeProperties\<close> key, so reading them
  gives \<^verbatim>\<open>undefined\<close>.
\<close>

record orderBy =
  properties :: jsval
  startNodeProperties :: jsval
  endNodeProperties :: jsval
  order :: direction

text \<open>
  The private fields of the builder (\<open>p_type\<close> is \<^verbatim>\<open>_type\<close>, and so on), and
  \<open>heap\<close>: the filter objects that references point to. Filter objects are shared
  with the caller and mutated by the filter setters, so they live in a store.
\<close>

record builder =
  p_type :: "string option"
  p_startNodeId :: "int option"
  p_startNodeLabel :: "string option"
  p_endNodeId :: "int option"
  p_endNodeLabel :: "string option"
  p_startNodeWhere :: whereRef
  p_endNodeWhere :: whereRef
  p_relationWhere :: whereRef
  p_limit :: "int option"
  p_orderBy :: "orderBy option"
  p_returnStart :: "string option"
  p_returnEnd :: "string option"
  p_returnRelation :: "string option"
  heap :: "nat \<Rightarrow> whereObj"

subsection \<open>Methods as state transformers\<close>

text \<open>
  Every method of the class runs on the builder and may change it: a method
  returning \<open>'a\<close> is a computation in the state monad over \<open>builder\<close>. A setter
  returns \<^verbatim>\<open>this\<close>, modelled as \<open>unit\<close>.
\<close>

type_synonym 'a meth = "(builder, 'a) state"

definition read :: "(builder \<Rightarrow> 'a) \<Rightarrow> 'a meth" where
  "read f = State (\<lambda>this. (f this, this))"

definition assign :: "(builder \<Rightarrow> builder) \<Rightarrow> unit meth" where
  "assign f = State (\<lambda>this. ((), f this))"

definition skip :: "unit meth" where
  "skip = State_Monad.return ()"

definition resultOf :: "'a meth \<Rightarrow> builder \<Rightarrow> 'a" where
  "resultOf m this = fst (run_state m this)"

definition stateAfter :: "'a meth \<Rightarrow> builder \<Rightarrow> builder" where
  "stateAfter m this = snd (run_state m this)"

section \<open>Setters\<close>

definition set_type :: "jsval \<Rightarrow> unit meth" where
  "set_type ty =
     (case ty of
        JStr s \<Rightarrow> if s \<noteq> [] then assign (\<lambda>this. this\<lparr>p_type := Some s\<rparr>) else skip
      | _ \<Rightarrow> skip)"

definition startNode :: "jsval \<Rightarrow> jsval \<Rightarrow> unit meth" where
  "startNode nodeId label = do {
     (case nodeId of
        JInt i \<Rightarrow> assign (\<lambda>this. this\<lparr>p_startNodeId := Some i\<rparr>)
      | _ \<Rightarrow> skip);
     (case label of
        JStr l \<Rightarrow> assign (\<lambda>this. this\<lparr>p_startNodeLabel := Some l\<rparr>)
      | _ \<Rightarrow> skip)
   }"

definition endNode :: "jsval \<Rightarrow> jsval \<Rightarrow> unit meth" where
  "endNode nodeId label = do {
     (case nodeId of
        JInt i \<Rightarrow> assign (\<lambda>this. this\<lparr>p_endNodeId := Some i\<rparr>)
      | _ \<Rightarrow> skip);
     (case label of
        JStr l \<Rightarrow> assign (\<lambda>this. this\<lparr>p_endNodeLabel := Some l\<rparr>)
      | _ \<Rightarrow> skip)
   }"

text \<open>The assignment \<^verbatim>\<open>o.variable = v\<close> on the filter object at address \<open>r\<close>.\<close>

definition setVariable :: "nat \<Rightarrow> string \<Rightarrow> unit meth" where
  "setVariable r v = assign (\<lambda>this. this\<lparr>heap := (heap this)(r := (heap this r)\<lparr>variable := v\<rparr>)\<rparr>)"

text \<open>
  The guard \<^verbatim>\<open>where == null || where instanceof OGMNeoWhere\<close> lets
  \<^verbatim>\<open>undefined\<close>, \<^verbatim>\<open>null\<close> and filter objects through, and the argument is
  stored as it is; of these only a filter object is truthy, and then its
  \<^verbatim>\<open>variable\<close> is assigned. Any other value is ignored.
\<close>

definition startNodeWhere :: "jsval \<Rightarrow> unit meth" where
  "startNodeWhere w =
     (case w of
        JUndefined \<Rightarrow> assign (\<lambda>this. this\<lparr>p_startNodeWhere := WUndefined\<rparr>)
      | JNull \<Rightarrow> assign (\<lambda>this. this\<lparr>p_startNodeWhere := WNull\<rparr>)
      | JWhere r \<Rightarrow> do {
          assign (\<lambda>this. this\<lparr>p_startNodeWhere := WRef r\<rparr>);
          setVariable r ''n1''
        }
      | _ \<Rightarrow> skip)"

definition endNodeWhere :: "jsval \<Rightarrow> unit meth" where
  "endNodeWhere w =
     (case w of
        JUndefined \<Rightarrow> assign (\<lambda>this. this\<lparr>p_endNodeWhere := WUndefined\<rparr>)
      | JNull \<Rightarrow> assign (\<lambda>this. this\<lparr>p_endNodeWhere := WNull\<rparr>)
      | JWhere r \<Rightarrow> do {
          assign (\<lambda>this. this\<lparr>p_endNodeWhere := WRef r\<rparr>);
          setVariable r ''n2''
        }
      | _ \<Rightarrow> skip)"

definition relationWhere :: "jsval \<Rightarrow> unit meth" where
  "relationWhere w =
     (case w of
        JUndefined \<Rightarrow> assign (\<lambda>this. this\<lparr>p_relationWhere := WUndefined\<rparr>)
      | JNull \<Rightarrow> assign (\<lambda>this. this\<lparr>p_relationWhere := WNull\<rparr>)
      | JWhere r \<Rightarrow> do {
          assign (\<lambda>this. this\<lparr>p_relationWhere := WRef r\<rparr>);
          setVariable r ''r''
        }
      | _ \<Rightarrow> skip)"

definition limit :: "jsval \<Rightarrow> unit meth" where
  "limit v =
     (case v of
        JInt n \<Rightarrow> assign (\<lambda>this. this\<lparr>p_limit := Some n\<rparr>)
      | _ \<Rightarrow> skip)"

definition descOrderBy :: "jsval \<Rightarrow> unit meth" where
  "descOrderBy props =
     assign (\<lambda>this. this\<lparr>p_orderBy := Some
       \<lparr>properties = props, startNodeProperties = JUndefined,
        endNodeProperties = JUndefined, order = DESC\<rparr>\<rparr>)"

definition ascOrderBy :: "jsval \<Rightarrow> jsval \<Rightarrow> jsval \<Rightarrow> unit meth" where
  "ascOrderBy props startProps endProps =
     assign (\<lambda>this. this\<lparr>p_orderBy := Some
       \<lparr>properties = props, startNodeProperties = withDefault startProps JNull,
        endNodeProperties = withDefault endProps JNull, order = ASC\<rparr>\<rparr>)"

definition returnStartNode :: "jsval \<Rightarrow> unit meth" where
  "returnStartNode props =
     (if isValidPropertiesArray props
      then assign (\<lambda>this. this\<lparr>p_returnStart := Some (parsePropertiesArray props ''n1'')\<rparr>)
      else skip)"

definition returnEndNode :: "jsval \<Rightarrow> unit meth" where
  "returnEndNode props =
     (if isValidPropertiesArray props
      then assign (\<lambda>this. this\<lparr>p_returnEnd := Some (parsePropertiesArray props ''n2'')\<rparr>)
      else skip)"

definition returnRelationNode :: "jsval \<Rightarrow> unit meth" where
  "returnRelationNode props =
     (if isValidPropertiesArray props
      then assign (\<lambda>this. this\<lparr>p_returnRelation := Some (parsePropertiesArray props ''r'')\<rparr>)
      else skip)"

subsection \<open>Construction\<close>

text \<open>
  A fresh object has no field; the constructor runs the \<^verbatim>\<open>type\<close> setter on its
  argument. The store of filter objects is whatever the caller has allocated.
\<close>

definition fresh :: "(nat \<Rightarrow> whereObj) \<Rightarrow> builder" where
  "fresh h =
     \<lparr>p_type = None, p_startNodeId = None, p_startNodeLabel = None,
      p_endNodeId = None, p_endNodeLabel = None,
      p_startNodeWhere = WUndefined, p_endNodeWhere = WUndefined,
      p_relationWhere = WUndefined, p_limit = None, p_orderBy = None,
      p_returnStart = None, p_returnEnd = None, p_returnRelation = None,
      heap = h\<rparr>"

definition create :: "jsval \<Rightarrow> (nat \<Rightarrow> whereObj) \<Rightarrow> builder" where
  "create ty h = stateAfter (set_type ty) (fresh h)"

section \<open>Renderers\<close>

definition concatWhereClause :: "string \<Rightarrow> string \<Rightarrow> string meth" where
  "concatWhereClause whereClause newClause =
     State_Monad.return (whereClause @ (if whereClause \<noteq> [] then '' AND '' else []) @ newClause)"

text \<open>Reading \<^verbatim>\<open>clause\<close> of the filter object at address \<open>r\<close>.\<close>

definition clauseOf :: "nat \<Rightarrow> string meth" where
  "clauseOf r = read (\<lambda>this. clause (heap this r))"

definition whereCypher :: "string meth" where
  "whereCypher = do {
     let whereStr = [];
     startId \<leftarrow> read p_startNodeId;
     whereStr \<leftarrow> (case startId of
        Some i \<Rightarrow> concatWhereClause whereStr (''ID(n1) = '' @ numberToString i)
      | None \<Rightarrow> State_Monad.return whereStr);
     endId \<leftarrow> read p_endNodeId;
     whereStr \<leftarrow> (case endId of
        Some i \<Rightarrow> concatWhereClause whereStr (''ID(n2) = '' @ numberToString i)
      | None \<Rightarrow> State_Monad.return whereStr);
     relW \<leftarrow> read p_relationWhere;
     whereStr \<leftarrow> (case relW of
        WRef r \<Rightarrow> do { c \<leftarrow> clauseOf r; concatWhereClause whereStr c }
      | _ \<Rightarrow> State_Monad.return whereStr);
     startW \<leftarrow> read p_startNodeWhere;
     whereStr \<leftarrow> (case startW of
        WRef r \<Rightarrow> do { c \<leftarrow> clauseOf r; concatWhereClause whereStr c }
      | _ \<Rightarrow> State_Monad.return whereStr);
     endW \<leftarrow> read p_endNodeWhere;
     whereStr \<leftarrow> (case endW of
        WRef r \<Rightarrow> do { c \<leftarrow> clauseOf r; concatWhereClause whereStr c }
      | _ \<Rightarrow> State_Monad.return whereStr);
     State_Monad.return (if whereStr \<noteq> [] then ''WHERE '' @ whereStr else [])
   }"

definition startNodeClause :: "string meth" where
  "startNodeClause = do {
     label \<leftarrow> read p_startNodeLabel;
     State_Monad.return (''n1'' @ (case label of Some l \<Rightarrow> '':'' @ l | None \<Rightarrow> []))
   }"

definition endNodeClause :: "string meth" where
  "endNodeClause = do {
     label \<leftarrow> read p_endNodeLabel;
     State_Monad.return (''n2'' @ (case label of Some l \<Rightarrow> '':'' @ l | None \<Rightarrow> []))
   }"

definition get_type :: "string option meth" where
  "get_type = read p_type"

definition relationClause :: "string meth" where
  "relationClause = do {
     ty \<leftarrow> get_type;
     State_Monad.return (''r'' @ (case ty of Some t \<Rightarrow> '':'' @ t | None \<Rightarrow> []))
   }"

definition matchCypher :: "string meth" where
  "matchCypher = do {
     s \<leftarrow> startNodeClause;
     r \<leftarrow> relationClause;
     e \<leftarrow> endNodeClause;
     w \<leftarrow> whereCypher;
     State_Monad.return (''MATCH p=('' @ s @ '')-['' @ r @ '']->('' @ e @ '') '' @ w)
   }"

text \<open>
  \<^verbatim>\<open>(x) ? x : d\<close> on a field holding a string or \<^verbatim>\<open>undefined\<close>: the empty
  string is falsy, as \<^verbatim>\<open>undefined\<close> is.
\<close>

definition orElse :: "string option \<Rightarrow> string \<Rightarrow> string" where
  "orElse x d = (case x of Some s \<Rightarrow> if s \<noteq> [] then s else d | None \<Rightarrow> d)"

definition returnClause :: "bool \<Rightarrow> string meth" where
  "returnClause populated = do {
     rel \<leftarrow> read p_returnRelation;
     let returnStr = orElse rel ''r'';
     returnStr \<leftarrow> (if populated then do {
         st \<leftarrow> read p_returnStart;
         let returnStr = returnStr @ '', '' @ orElse st ''n1'';
         en \<leftarrow> read p_returnEnd;
         State_Monad.return (returnStr @ '', '' @ orElse en ''n2'')
       } else State_Monad.return returnStr);
     State_Monad.return (''RETURN '' @ returnStr)
   }"

definition nodesReturnClause :: "jsval \<Rightarrow> jsval \<Rightarrow> string meth" where
  "nodesReturnClause nodes distinctFlag = do {
     let returnStr = [];
     let distinctClause = (if truthy distinctFlag then ''DISTINCT '' else []);
     returnStr \<leftarrow> (if \<not> truthy nodes \<or> nodes = JStr ''start'' \<or> nodes = JStr ''both''
       then do { st \<leftarrow> read p_returnStart; State_Monad.return (returnStr @ orElse st ''n1'') }
       else State_Monad.return returnStr);
     returnStr \<leftarrow> (if \<not> truthy nodes \<or> nodes = JStr ''end'' \<or> nodes = JStr ''both''
       then do {
         let returnStr = (if returnStr \<noteq> [] then returnStr @ '', '' else returnStr);
         en \<leftarrow> read p_returnEnd;
         State_Monad.return (returnStr @ orElse en ''n2'')
       }
       else State_Monad.return returnStr);
     State_Monad.return (''RETURN '' @ distinctClause @ returnStr)
   }"

definition addOrderByClause :: "string \<Rightarrow> jsval \<Rightarrow> string \<Rightarrow> string meth" where
  "addOrderByClause clauseStr props var =
     (if isValidPropertiesArray props
      then do {
        let propertiesClause = parsePropertiesArray props var;
        State_Monad.return (clauseStr @ (if clauseStr \<noteq> [] then '', '' else []) @ propertiesClause)
      }
      else State_Monad.return clauseStr)"

definition orderByClause :: "string meth" where
  "orderByClause = do {
     let orderStr = [];
     ob \<leftarrow> read p_orderBy;
     (case ob of
        Some d \<Rightarrow> do {
          orderStr \<leftarrow> addOrderByClause orderStr (properties d) ''r'';
          orderStr \<leftarrow> addOrderByClause orderStr (startNodeProperties d) ''n1'';
          orderStr \<leftarrow> addOrderByClause orderStr (endNodeProperties d) ''n2'';
          State_Monad.return
            (if orderStr \<noteq> [] then ''ORDER BY '' @ orderStr @ '' '' @ directionKeyword (order d)
             else [])
        }
      | None \<Rightarrow> State_Monad.return [])
   }"

text \<open>\<^verbatim>\<open>(this._limit) ? ... : ''\<close>: the number zero is falsy.\<close>

definition limitClause :: "string meth" where
  "limitClause = do {
     l \<leftarrow> read p_limit;
     State_Monad.return
       (case l of
          Some n \<Rightarrow> if n \<noteq> 0 then ''LIMIT '' @ numberToString n else []
        | None \<Rightarrow> [])
   }"

definition queryCypherBuilder :: "bool \<Rightarrow> string meth" where
  "queryCypherBuilder populated = do {
     m \<leftarrow> matchCypher;
     r \<leftarrow> returnClause populated;
     let query = m @ '' '' @ r;
     orderStr \<leftarrow> orderByClause;
     limitStr \<leftarrow> limitClause;
     let query = (if orderStr \<noteq> [] then query @ '' '' @ orderStr else query);
     let query = (if limitStr \<noteq> [] then query @ '' '' @ limitStr else query);
     State_Monad.return query
   }"

definition queryCypher :: "string meth" where
  "queryCypher = queryCypherBuilder False"

definition queryPopulatedCypher :: "string meth" where
  "queryPopulatedCypher = queryCypherBuilder True"

definition queryNodesCypher :: "jsval \<Rightarrow> jsval \<Rightarrow> string meth" where
  "queryNodesCypher nodesArg distinctArg = do {
     let nodes = withDefault nodesArg (JStr ''both'');
     let distinctFlag = withDefault distinctArg (JBool False);
     m \<leftarrow> matchCypher;
     r \<leftarrow> nodesReturnClause nodes distinctFlag;
     let query = m @ '' '' @ r;
     orderStr \<leftarrow> orderByClause;
     limitStr \<leftarrow> limitClause;
     let query = (if orderStr \<noteq> [] then query @ '' '' @ orderStr else query);
     let query = (if limitStr \<noteq> [] then query @ '' '' @ limitStr else query);
     State_Monad.return query
   }"

definition countCypher :: "string meth" where
  "countCypher = do {
     m \<leftarrow> matchCypher;
     State_Monad.return (m @ '' RETURN COUNT(r) as count'')
   }"

section \<open>Sequences of setter calls\<close>

text \<open>
  The public setters as a datatype of calls, so that statements can range over
  every call and over every state that calls can build. \<open>SetType\<close> is the
  assignment \<^verbatim>\<open>query.type = v\<close>; an argument left out is \<^verbatim>\<open>undefined\<close>.
\<close>

datatype call =
    SetType jsval
  | StartNode jsval jsval
  | EndNode jsval jsval
  | StartNodeWhere jsval
  | EndNodeWhere jsval
  | RelationWhere jsval
  | Limit jsval
  | DescOrderBy jsval
  | AscOrderBy jsval jsval jsval
  | ReturnStartNode jsval
  | ReturnEndNode jsval
  | ReturnRelationNode jsval

fun perform :: "call \<Rightarrow> unit meth" where
  "perform (SetType v) = set_type v"
| "perform (StartNode i l) = startNode i l"
| "perform (EndNode i l) = endNode i l"
| "perform (StartNodeWhere w) = startNodeWhere w"
| "perform (EndNodeWhere w) = endNodeWhere w"
| "perform (RelationWhere w) = relationWhere w"
| "perform (Limit v) = limit v"
| "perform (DescOrderBy p) = descOrderBy p"
| "perform (AscOrderBy p s e) = ascOrderBy p s e"
| "perform (ReturnStartNode p) = returnStartNode p"
| "perform (ReturnEndNode p) = returnEndNode p"
| "perform (ReturnRelationNode p) = returnRelationNode p"

fun performAll :: "call list \<Rightarrow> unit meth" where
  "performAll [] = skip"
| "performAll (c # cs) = do { perform c; performAll cs }"

fun isOrderCall :: "call \<Rightarrow> bool" where
  "isOrderCall (DescOrderBy p) = True"
| "isOrderCall (AscOrderBy p s e) = True"
| "isOrderCall c = False"

section \<open>What the specification says, as definitions\<close>

text \<open>
  The definitions of this section follow the wording of the specification, not
  the code; the theorems below compare them with the renderers and setters.
\<close>

text \<open>
  A call all of whose arguments have an invalid type: a non-integer id or limit,
  a non-string label, a type that is not a non-empty string, a filter argument
  that is neither null nor a filter, invalid order-by or projection properties.
\<close>

fun invalidArguments :: "call \<Rightarrow> bool" where
  "invalidArguments (SetType v) = (\<not> isString v \<or> v = JStr [])"
| "invalidArguments (StartNode i l) = (\<not> isInteger i \<and> \<not> isString l)"
| "invalidArguments (EndNode i l) = (\<not> isInteger i \<and> \<not> isString l)"
| "invalidArguments (StartNodeWhere w) = (\<not> looselyNull w \<and> \<not> instanceofWhere w)"
| "invalidArguments (EndNodeWhere w) = (\<not> looselyNull w \<and> \<not> instanceofWhere w)"
| "invalidArguments (RelationWhere w) = (\<not> looselyNull w \<and> \<not> instanceofWhere w)"
| "invalidArguments (Limit v) = (\<not> isInteger v)"
| "invalidArguments (DescOrderBy p) = (\<not> isValidPropertiesArray p)"
| "invalidArguments (AscOrderBy p s e) =
     (\<not> isValidPropertiesArray p \<and> \<not> isValidPropertiesArray s \<and> \<not> isValidPropertiesArray e)"
| "invalidArguments (ReturnStartNode p) = (\<not> isValidPropertiesArray p)"
| "invalidArguments (ReturnEndNode p) = (\<not> isValidPropertiesArray p)"
| "invalidArguments (ReturnRelationNode p) = (\<not> isValidPropertiesArray p)"

text \<open>The ordering descriptor that an ordering call establishes.\<close>

fun descriptorOf :: "call \<Rightarrow> orderBy option" where
  "descriptorOf (DescOrderBy p) =
     Some \<lparr>properties = p, startNodeProperties = JUndefined, endNodeProperties = JUndefined,
           order = DESC\<rparr>"
| "descriptorOf (AscOrderBy p s e) =
     Some \<lparr>properties = p, startNodeProperties = withDefault s JNull,
           endNodeProperties = withDefault e JNull, order = ASC\<rparr>"
| "descriptorOf c = None"

text \<open>
  The terms of the where clause, in the fixed order: start-id equality, end-id
  equality, relation filter, start filter, end filter; an absent term gives no
  element.
\<close>

fun idTerm :: "string \<Rightarrow> int option \<Rightarrow> string list" where
  "idTerm v None = []"
| "idTerm v (Some i) = [''ID('' @ v @ '') = '' @ numberToString i]"

fun filterTerm :: "builder \<Rightarrow> whereRef \<Rightarrow> string list" where
  "filterTerm this (WRef r) = [clause (heap this r)]"
| "filterTerm this w = []"

definition whereTerms :: "builder \<Rightarrow> string list" where
  "whereTerms this =
     idTerm ''n1'' (p_startNodeId this) @ idTerm ''n2'' (p_endNodeId this) @
     filterTerm this (p_relationWhere this) @ filterTerm this (p_startNodeWhere this) @
     filterTerm this (p_endNodeWhere this)"

text \<open>One step of the code's accumulation of the where clause, for the proofs.\<close>

definition andStep :: "string \<Rightarrow> string \<Rightarrow> string" where
  "andStep acc t = acc @ (if acc \<noteq> [] then '' AND '' else []) @ t"

text \<open>
  The match pattern \<^verbatim>\<open>MATCH p=(n1[:startLabel])-[r[:type]]->(n2[:endLabel])\<close>:
  a label or type token is a colon and the name, or nothing at all when unset.
\<close>

definition labelToken :: "string option \<Rightarrow> string" where
  "labelToken x = (case x of None \<Rightarrow> [] | Some l \<Rightarrow> '':'' @ l)"

definition matchPattern :: "builder \<Rightarrow> string" where
  "matchPattern this =
     ''MATCH p=(n1'' @ labelToken (p_startNodeLabel this) @ '')-[r'' @ labelToken (p_type this) @
     '']->(n2'' @ labelToken (p_endNodeLabel this) @ '')''"

text \<open>
  The order-by clause: the rendered relation, start and end property lists, in
  that order, the invalid or absent ones skipped, then the one direction keyword.
\<close>

definition renderedLists :: "orderBy \<Rightarrow> string list" where
  "renderedLists d =
     map (\<lambda>(p, v). parsePropertiesArray p v)
       (filter (\<lambda>(p, v). isValidPropertiesArray p)
          [(properties d, ''r''), (startNodeProperties d, ''n1''), (endNodeProperties d, ''n2'')])"

definition orderByText :: "orderBy option \<Rightarrow> string" where
  "orderByText ob =
     (case ob of
        None \<Rightarrow> []
      | Some d \<Rightarrow>
          if renderedLists d = [] then []
          else ''ORDER BY '' @ join '', '' (renderedLists d) @ '' '' @ directionKeyword (order d))"

text \<open>The order-by and limit clauses as the composite renderers append them.\<close>

definition tailClauses :: "builder \<Rightarrow> string" where
  "tailClauses this =
     (if resultOf orderByClause this \<noteq> [] then '' '' @ resultOf orderByClause this else []) @
     (if resultOf limitClause this \<noteq> [] then '' '' @ resultOf limitClause this else [])"

text \<open>A projection, or its default when none is set.\<close>

definition projection :: "string option \<Rightarrow> string \<Rightarrow> string" where
  "projection x d = (case x of None \<Rightarrow> d | Some p \<Rightarrow> p)"

text \<open>The invariant of the projection fields: a stored projection is not empty.\<close>

definition projectionsNonEmpty :: "builder \<Rightarrow> bool" where
  "projectionsNonEmpty this =
     (p_returnStart this \<noteq> Some [] \<and> p_returnEnd this \<noteq> Some [] \<and>
      p_returnRelation this \<noteq> Some [])"

subsection \<open>Sample builders\<close>

text \<open>
  A store in which every filter object renders \<^verbatim>\<open>value > 2\<close> on its pattern
  variable, and two builders made through the public interface.
\<close>

definition sampleHeap :: "nat \<Rightarrow> whereObj" where
  "sampleHeap r = \<lparr>variable = ''n'', render = (\<lambda>v. v @ ''.value > 2'')\<rparr>"

definition orderedSample :: builder where
  "orderedSample =
     stateAfter (ascOrderBy (JStr ''name'') JUndefined JUndefined)
       (create (JStr ''knows'') sampleHeap)"

definition filteredSample :: builder where
  "filteredSample =
     stateAfter (performAll [StartNode (JInt 3) JUndefined, RelationWhere (JWhere 0),
                             ReturnStartNode (JArr [JStr ''name'', JStr ''value''])])
       (create (JStr ''knows'') sampleHeap)"

section \<open>Running the methods\<close>

lemma run_read [simp]: "run_state (read f) this = (f this, this)"
  by (simp add: read_def)

lemma run_assign [simp]: "run_state (assign f) this = ((), f this)"
  by (simp add: assign_def)

lemma run_skip [simp]: "run_state skip this = ((), this)"
  by (simp add: skip_def)

lemma run_concatWhereClause [simp]:
  "run_state (concatWhereClause w c) this = (w @ (if w \<noteq> [] then '' AND '' else []) @ c, this)"
  by (simp add: concatWhereClause_def)

lemma run_clauseOf [simp]: "run_state (clauseOf r) this = (clause (heap this r), this)"
  by (simp add: clauseOf_def)

lemma resultOfI: "run_state m this = (r, this') \<Longrightarrow> resultOf m this = r"
  by (simp add: resultOf_def)

lemmas setter_defs = set_type_def startNode_def endNode_def startNodeWhere_def endNodeWhere_def
  relationWhere_def limit_def descOrderBy_def ascOrderBy_def returnStartNode_def
  returnEndNode_def returnRelationNode_def setVariable_def

subsection \<open>Joining strings\<close>

lemma join_snoc: "ts \<noteq> [] \<Longrightarrow> join sep (ts @ [t]) = join sep ts @ sep @ t"
  by (induction sep ts rule: join.induct) auto

lemma join_empty_iff: "list_all (\<lambda>t. t \<noteq> []) ts \<Longrightarrow> join sep ts = [] \<longleftrightarrow> ts = []"
  by (induction sep ts rule: join.induct) auto

lemma foldl_andStep_join:
  "list_all (\<lambda>t. t \<noteq> []) ts \<Longrightarrow> foldl andStep [] ts = join '' AND '' ts"
proof (induction ts rule: rev_induct)
  case Nil
  show ?case by simp
next
  case (snoc t ts)
  then have nonempty: "list_all (\<lambda>t. t \<noteq> []) ts" and t: "t \<noteq> []"
    by simp_all
  show ?case
  proof (cases "ts = []")
    case True
    then show ?thesis by (simp add: andStep_def)
  next
    case False
    with nonempty have "join '' AND '' ts \<noteq> []"
      by (simp add: join_empty_iff)
    with False snoc.IH [OF nonempty] show ?thesis
      by (simp add: andStep_def join_snoc)
  qed
qed

lemma stringsOf_strings: "list_all isString xs \<Longrightarrow> xs \<noteq> [] \<Longrightarrow> stringsOf xs \<noteq> []"
  by (induction xs rule: stringsOf.induct) simp_all

lemma parsePropertiesArray_nonempty:
  assumes "isValidPropertiesArray p"
  shows "parsePropertiesArray p v \<noteq> []"
proof -
  from assms have names: "propertyNames p \<noteq> []"
    by (cases p) (simp_all add: stringsOf_strings)
  have "list_all (\<lambda>t. t \<noteq> []) (map (\<lambda>n. v @ ''.'' @ n) (propertyNames p))"
    by (simp add: list_all_iff)
  from join_empty_iff [OF this] names show ?thesis
    by (simp add: parsePropertiesArray_def)
qed

lemma numberToString_3: "numberToString 3 = ''3''"
  by (simp add: numberToString_def digits.simps digitChar_def)

subsection \<open>The renderers return a string and the builder as it was\<close>

lemma run_whereCypher:
  "run_state whereCypher this =
     (let w = foldl andStep [] (whereTerms this) in if w \<noteq> [] then ''WHERE '' @ w else [], this)"
  by (cases "p_startNodeId this"; cases "p_endNodeId this"; cases "p_relationWhere this";
      cases "p_startNodeWhere this"; cases "p_endNodeWhere this")
     (simp_all add: whereCypher_def whereTerms_def andStep_def)

lemma whereCypher_pure: "run_state whereCypher this = (resultOf whereCypher this, this)"
  by (simp add: resultOf_def run_whereCypher)

lemma startNodeClause_pure:
  "run_state startNodeClause this = (''n1'' @ labelToken (p_startNodeLabel this), this)"
  by (simp add: startNodeClause_def labelToken_def split: option.split)

lemma endNodeClause_pure:
  "run_state endNodeClause this = (''n2'' @ labelToken (p_endNodeLabel this), this)"
  by (simp add: endNodeClause_def labelToken_def split: option.split)

lemma relationClause_pure:
  "run_state relationClause this = (''r'' @ labelToken (p_type this), this)"
  by (simp add: relationClause_def get_type_def labelToken_def split: option.split)

lemma run_matchCypher:
  "run_state matchCypher this = (matchPattern this @ '' '' @ resultOf whereCypher this, this)"
  by (simp add: matchCypher_def matchPattern_def startNodeClause_pure endNodeClause_pure
      relationClause_pure whereCypher_pure)

lemma matchCypher_pure: "run_state matchCypher this = (resultOf matchCypher this, this)"
  by (simp add: resultOf_def run_matchCypher)

lemma run_returnClause:
  "run_state (returnClause populated) this =
     (''RETURN '' @ orElse (p_returnRelation this) ''r'' @
        (if populated
         then '', '' @ orElse (p_returnStart this) ''n1'' @ '', '' @ orElse (p_returnEnd this) ''n2''
         else []), this)"
  by (simp add: returnClause_def)

lemma returnClause_pure:
  "run_state (returnClause populated) this = (resultOf (returnClause populated) this, this)"
  by (simp add: resultOf_def run_returnClause)

lemma nodesReturnClause_pure:
  "run_state (nodesReturnClause nodes d) this = (resultOf (nodesReturnClause nodes d) this, this)"
  by (simp add: resultOf_def nodesReturnClause_def Let_def)

lemma addOrderByClause_pure:
  "run_state (addOrderByClause c props v) this =
     (if isValidPropertiesArray props
      then c @ (if c \<noteq> [] then '', '' else []) @ parsePropertiesArray props v else c, this)"
  by (simp add: addOrderByClause_def)

lemma run_orderByClause: "run_state orderByClause this = (orderByText (p_orderBy this), this)"
proof (cases "p_orderBy this")
  case None
  then show ?thesis by (simp add: orderByClause_def orderByText_def)
next
  case (Some d)
  then show ?thesis
    by (simp add: orderByClause_def orderByText_def addOrderByClause_pure renderedLists_def
        parsePropertiesArray_nonempty)
qed

lemma orderByClause_pure: "run_state orderByClause this = (resultOf orderByClause this, this)"
  by (simp add: resultOf_def run_orderByClause)

lemma run_limitClause:
  "run_state limitClause this =
     (case p_limit this of
        Some n \<Rightarrow> if n \<noteq> 0 then ''LIMIT '' @ numberToString n else []
      | None \<Rightarrow> [], this)"
  by (simp add: limitClause_def)

lemma limitClause_pure: "run_state limitClause this = (resultOf limitClause this, this)"
  by (simp add: resultOf_def run_limitClause)

lemma run_queryCypherBuilder:
  "run_state (queryCypherBuilder populated) this =
     (resultOf matchCypher this @ '' '' @ resultOf (returnClause populated) this @
      tailClauses this, this)"
  by (simp add: queryCypherBuilder_def matchCypher_pure returnClause_pure orderByClause_pure
      limitClause_pure tailClauses_def Let_def)

lemma run_queryNodesCypher:
  "run_state (queryNodesCypher n d) this =
     (resultOf matchCypher this @ '' '' @
      resultOf (nodesReturnClause (withDefault n (JStr ''both'')) (withDefault d (JBool False))) this @
      tailClauses this, this)"
  by (simp add: queryNodesCypher_def matchCypher_pure nodesReturnClause_pure orderByClause_pure
      limitClause_pure tailClauses_def Let_def)

lemma run_countCypher:
  "run_state countCypher this = (resultOf matchCypher this @ '' RETURN COUNT(r) as count'', this)"
  by (simp add: countCypher_def matchCypher_pure)

lemmas result_queryCypherBuilder = resultOfI [OF run_queryCypherBuilder]
lemmas result_queryNodesCypher = resultOfI [OF run_queryNodesCypher]
lemmas result_countCypher = resultOfI [OF run_countCypher]

lemmas state_simps = stateAfter_def create_def fresh_def setter_defs sampleHeap_def clause_def
  withDefault_def

lemmas result_simps = result_queryCypherBuilder result_queryNodesCypher result_countCypher
  resultOfI [OF run_matchCypher] resultOfI [OF run_whereCypher] resultOfI [OF run_returnClause]
  resultOfI [OF run_orderByClause] resultOfI [OF run_limitClause]
  resultOfI [OF nodesReturnClause_pure]
  tailClauses_def matchPattern_def labelToken_def
  whereTerms_def andStep_def orderByText_def renderedLists_def parsePropertiesArray_def orElse_def
  queryCypher_def queryPopulatedCypher_def

subsection \<open>The setters, call by call\<close>

lemma setter_ignores_invalid:
  "invalidArguments c \<Longrightarrow> \<not> isOrderCall c \<Longrightarrow> run_state (perform c) this = ((), this)"
proof (cases c)
  case (SetType v)
  assume "invalidArguments c"
  with SetType show ?thesis by (cases v) (simp_all add: set_type_def)
next
  case (StartNode i l)
  assume "invalidArguments c"
  with StartNode show ?thesis by (cases i; cases l) (simp_all add: startNode_def)
next
  case (EndNode i l)
  assume "invalidArguments c"
  with EndNode show ?thesis by (cases i; cases l) (simp_all add: endNode_def)
next
  case (StartNodeWhere w)
  assume "invalidArguments c"
  with StartNodeWhere show ?thesis by (cases w) (simp_all add: startNodeWhere_def)
next
  case (EndNodeWhere w)
  assume "invalidArguments c"
  with EndNodeWhere show ?thesis by (cases w) (simp_all add: endNodeWhere_def)
next
  case (RelationWhere w)
  assume "invalidArguments c"
  with RelationWhere show ?thesis by (cases w) (simp_all add: relationWhere_def)
next
  case (Limit v)
  assume "invalidArguments c"
  with Limit show ?thesis by (cases v) (simp_all add: limit_def)
next
  case (DescOrderBy p)
  assume "\<not> isOrderCall c"
  with DescOrderBy show ?thesis by simp
next
  case (AscOrderBy p s e)
  assume "\<not> isOrderCall c"
  with AscOrderBy show ?thesis by simp
next
  case (ReturnStartNode p)
  assume "invalidArguments c"
  with ReturnStartNode show ?thesis by (simp add: returnStartNode_def)
next
  case (ReturnEndNode p)
  assume "invalidArguments c"
  with ReturnEndNode show ?thesis by (simp add: returnEndNode_def)
next
  case (ReturnRelationNode p)
  assume "invalidArguments c"
  with ReturnRelationNode show ?thesis by (simp add: returnRelationNode_def)
qed

lemma startNode_fields:
  "stateAfter (startNode i l) this =
     this\<lparr>p_startNodeId := (case i of JInt n \<Rightarrow> Some n | _ \<Rightarrow> p_startNodeId this),
          p_startNodeLabel := (case l of JStr s \<Rightarrow> Some s | _ \<Rightarrow> p_startNodeLabel this)\<rparr>"
  by (cases i; cases l) (simp_all add: stateAfter_def startNode_def)

lemma endNode_fields:
  "stateAfter (endNode i l) this =
     this\<lparr>p_endNodeId := (case i of JInt n \<Rightarrow> Some n | _ \<Rightarrow> p_endNodeId this),
          p_endNodeLabel := (case l of JStr s \<Rightarrow> Some s | _ \<Rightarrow> p_endNodeLabel this)\<rparr>"
  by (cases i; cases l) (simp_all add: stateAfter_def endNode_def)

lemma order_call_state:
  "isOrderCall c \<Longrightarrow> stateAfter (perform c) this = this\<lparr>p_orderBy := descriptorOf c\<rparr>"
  by (cases c) (simp_all add: stateAfter_def descOrderBy_def ascOrderBy_def)

lemma stateAfter_performAll_Nil: "stateAfter (performAll []) this = this"
  by (simp add: stateAfter_def)

lemma stateAfter_performAll_Cons:
  "stateAfter (performAll (c # cs)) this = stateAfter (performAll cs) (stateAfter (perform c) this)"
  by (simp add: stateAfter_def split: prod.split)

lemma order_calls_state:
  "cs \<noteq> [] \<Longrightarrow> list_all isOrderCall cs \<Longrightarrow>
   stateAfter (performAll cs) this = this\<lparr>p_orderBy := descriptorOf (last cs)\<rparr>"
proof (induction cs arbitrary: this)
  case Nil
  then show ?case by simp
next
  case (Cons c cs)
  show ?case
  proof (cases "cs = []")
    case True
    with Cons.prems show ?thesis
      by (simp add: stateAfter_performAll_Cons stateAfter_performAll_Nil order_call_state
          del: performAll.simps)
  next
    case False
    with Cons show ?thesis
      by (simp add: stateAfter_performAll_Cons order_call_state del: performAll.simps)
  qed
qed

subsection \<open>Stored projections are never empty\<close>

lemma projectionsNonEmpty_perform:
  "projectionsNonEmpty this \<Longrightarrow> projectionsNonEmpty (stateAfter (perform c) this)"
proof (cases c)
  case (SetType v)
  assume "projectionsNonEmpty this"
  with SetType show ?thesis
    by (cases v) (simp_all add: stateAfter_def set_type_def projectionsNonEmpty_def)
next
  case (StartNode i l)
  assume "projectionsNonEmpty this"
  with StartNode show ?thesis
    by (simp add: startNode_fields projectionsNonEmpty_def)
next
  case (EndNode i l)
  assume "projectionsNonEmpty this"
  with EndNode show ?thesis
    by (simp add: endNode_fields projectionsNonEmpty_def)
next
  case (StartNodeWhere w)
  assume "projectionsNonEmpty this"
  with StartNodeWhere show ?thesis
    by (cases w)
      (simp_all add: stateAfter_def startNodeWhere_def setVariable_def projectionsNonEmpty_def)
next
  case (EndNodeWhere w)
  assume "projectionsNonEmpty this"
  with EndNodeWhere show ?thesis
    by (cases w)
      (simp_all add: stateAfter_def endNodeWhere_def setVariable_def projectionsNonEmpty_def)
next
  case (RelationWhere w)
  assume "projectionsNonEmpty this"
  with RelationWhere show ?thesis
    by (cases w)
      (simp_all add: stateAfter_def relationWhere_def setVariable_def projectionsNonEmpty_def)
next
  case (Limit v)
  assume "projectionsNonEmpty this"
  with Limit show ?thesis
    by (cases v) (simp_all add: stateAfter_def limit_def projectionsNonEmpty_def)
next
  case (DescOrderBy p)
  assume "projectionsNonEmpty this"
  with DescOrderBy show ?thesis
    by (simp add: stateAfter_def descOrderBy_def projectionsNonEmpty_def)
next
  case (AscOrderBy p s e)
  assume "projectionsNonEmpty this"
  with AscOrderBy show ?thesis
    by (simp add: stateAfter_def ascOrderBy_def projectionsNonEmpty_def)
next
  case (ReturnStartNode p)
  assume "projectionsNonEmpty this"
  with ReturnStartNode show ?thesis
    by (simp add: stateAfter_def returnStartNode_def projectionsNonEmpty_def
        parsePropertiesArray_nonempty)
next
  case (ReturnEndNode p)
  assume "projectionsNonEmpty this"
  with ReturnEndNode show ?thesis
    by (simp add: stateAfter_def returnEndNode_def projectionsNonEmpty_def
        parsePropertiesArray_nonempty)
next
  case (ReturnRelationNode p)
  assume "projectionsNonEmpty this"
  with ReturnRelationNode show ?thesis
    by (simp add: stateAfter_def returnRelationNode_def projectionsNonEmpty_def
        parsePropertiesArray_nonempty)
qed

lemma projectionsNonEmpty_performAll:
  "projectionsNonEmpty this \<Longrightarrow> projectionsNonEmpty (stateAfter (performAll cs) this)"
proof (induction cs arbitrary: this)
  case Nil
  then show ?case by (simp add: stateAfter_performAll_Nil del: performAll.simps)
next
  case (Cons c cs)
  then show ?case
    by (simp add: stateAfter_performAll_Cons projectionsNonEmpty_perform del: performAll.simps)
qed

lemma projectionsNonEmpty_create: "projectionsNonEmpty (create ty h)"
  by (cases ty)
    (simp_all add: create_def fresh_def stateAfter_def set_type_def projectionsNonEmpty_def)

lemma orElse_projection: "x \<noteq> Some [] \<Longrightarrow> orElse x d = projection x d"
  by (simp add: orElse_def projection_def split: option.split)

lemma whereTerms_frame:
  "whereTerms (this\<lparr>p_limit := lim, p_orderBy := ob, p_returnStart := rs, p_returnEnd := re,
                    p_returnRelation := rr\<rparr>) = whereTerms this"
  by (cases "p_relationWhere this"; cases "p_startNodeWhere this"; cases "p_endNodeWhere this")
     (simp_all add: whereTerms_def)

subsection \<open>The sample builders, field by field\<close>

lemma filteredSample_fields:
  "p_type filteredSample = Some ''knows''"
  "p_startNodeId filteredSample = Some 3"
  "p_startNodeLabel filteredSample = None"
  "p_endNodeId filteredSample = None"
  "p_endNodeLabel filteredSample = None"
  "p_startNodeWhere filteredSample = WUndefined"
  "p_endNodeWhere filteredSample = WUndefined"
  "p_relationWhere filteredSample = WRef 0"
  "p_limit filteredSample = None"
  "p_orderBy filteredSample = None"
  "p_returnStart filteredSample = Some ''n1.name, n1.value''"
  "p_returnEnd filteredSample = None"
  "p_returnRelation filteredSample = None"
  "clause (heap filteredSample 0) = ''r.value > 2''"
  by (simp_all add: filteredSample_def state_simps parsePropertiesArray_def)

lemma orderedSample_fields:
  "p_type orderedSample = Some ''knows''"
  "p_startNodeId orderedSample = None"
  "p_startNodeLabel orderedSample = None"
  "p_endNodeId orderedSample = None"
  "p_endNodeLabel orderedSample = None"
  "p_startNodeWhere orderedSample = WUndefined"
  "p_endNodeWhere orderedSample = WUndefined"
  "p_relationWhere orderedSample = WUndefined"
  "p_limit orderedSample = None"
  "p_orderBy orderedSample =
     Some \<lparr>properties = JStr ''name'', startNodeProperties = JNull, endNodeProperties = JNull,
           order = ASC\<rparr>"
  "p_returnStart orderedSample = None"
  "p_returnEnd orderedSample = None"
  "p_returnRelation orderedSample = None"
  by (simp_all add: orderedSample_def state_simps)

lemma queryCypher_orderedSample:
  "resultOf queryCypher orderedSample =
     ''MATCH p=(n1)-[r:knows]->(n2)  RETURN r ORDER BY r.name ASC''"
  by (simp add: result_simps orderedSample_fields)

lemma whereCypher_filteredSample:
  "resultOf whereCypher filteredSample = ''WHERE ID(n1) = 3 AND r.value > 2''"
  by (simp add: resultOfI [OF run_whereCypher] whereTerms_def andStep_def filteredSample_fields
      numberToString_3)

section \<open>The claims\<close>

text \<open>
  Claim C1. For every builder state, \<^verbatim>\<open>whereCypher\<close> renders the conjunction,
  joined by \<^verbatim>\<open> AND \<close>, of exactly the present terms in the fixed order start-id
  equality, end-id equality, relation filter clause, start filter clause, end
  filter clause; an absent term is skipped, and with no term at all the result is
  the empty string, without the \<^verbatim>\<open>WHERE\<close> keyword. The filter class is a
  parameter of the model; its contract in the specification (a non-empty field
  name with a recognised operator) makes every clause a non-empty expression,
  which is the hypothesis.
\<close>

theorem whereCypher_conjunction:
  assumes "list_all (\<lambda>t. t \<noteq> []) (whereTerms this)"
  shows "resultOf whereCypher this =
           (if whereTerms this = [] then [] else ''WHERE '' @ join '' AND '' (whereTerms this))"
  using assms
  by (simp add: resultOf_def run_whereCypher foldl_andStep_join join_empty_iff Let_def)

theorem whereCypher_conjunction_witness:
  "list_all (\<lambda>t. t \<noteq> []) (whereTerms filteredSample)
   \<and> resultOf whereCypher filteredSample = ''WHERE ID(n1) = 3 AND r.value > 2''"
proof -
  have nonempty: "list_all (\<lambda>t. t \<noteq> []) (whereTerms filteredSample)"
    by (simp add: whereTerms_def filteredSample_fields)
  from whereCypher_conjunction [OF nonempty] nonempty show ?thesis
    by (simp add: whereTerms_def filteredSample_fields numberToString_3)
qed

text \<open>
  Claim C3. For every builder state, every rendered query begins with the match
  clause, which is \<^verbatim>\<open>MATCH p=(n1[:startLabel])-[r[:type]]->(n2[:endLabel])\<close>
  followed by a space and the where clause; the token of a label or of the type
  is empty, colon included, exactly when that constraint is unset.
\<close>

theorem match_clause_shape:
  "resultOf matchCypher this = matchPattern this @ '' '' @ resultOf whereCypher this
   \<and> prefix (resultOf matchCypher this) (resultOf queryCypher this)
   \<and> prefix (resultOf matchCypher this) (resultOf queryPopulatedCypher this)
   \<and> prefix (resultOf matchCypher this) (resultOf (queryNodesCypher nodes d) this)
   \<and> prefix (resultOf matchCypher this) (resultOf countCypher this)
   \<and> (labelToken x = [] \<longleftrightarrow> x = None)"
proof -
  have "resultOf matchCypher this = matchPattern this @ '' '' @ resultOf whereCypher this"
    by (simp add: resultOf_def run_matchCypher)
  moreover have "prefix (resultOf matchCypher this) (resultOf queryCypher this)"
    by (simp add: queryCypher_def result_queryCypherBuilder)
  moreover have "prefix (resultOf matchCypher this) (resultOf queryPopulatedCypher this)"
    by (simp add: queryPopulatedCypher_def result_queryCypherBuilder)
  moreover have "prefix (resultOf matchCypher this) (resultOf (queryNodesCypher nodes d) this)"
    by (simp add: result_queryNodesCypher)
  moreover have "prefix (resultOf matchCypher this) (resultOf countCypher this)"
    by (simp add: result_countCypher)
  moreover have "labelToken x = [] \<longleftrightarrow> x = None"
    by (simp add: labelToken_def split: option.split)
  ultimately show ?thesis by blast
qed

theorem match_clause_shape_witness:
  "resultOf matchCypher filteredSample =
     ''MATCH p=(n1)-[r:knows]->(n2) WHERE ID(n1) = 3 AND r.value > 2''
   \<and> prefix (resultOf matchCypher filteredSample) (resultOf queryCypher filteredSample)
   \<and> prefix (resultOf matchCypher filteredSample) (resultOf queryPopulatedCypher filteredSample)
   \<and> prefix (resultOf matchCypher filteredSample)
        (resultOf (queryNodesCypher (JStr ''start'') (JBool True)) filteredSample)
   \<and> prefix (resultOf matchCypher filteredSample) (resultOf countCypher filteredSample)
   \<and> labelToken None = []"
  using match_clause_shape [of filteredSample "JStr ''start''" "JBool True" None]
  by (auto simp add: matchPattern_def filteredSample_fields labelToken_def
      whereCypher_filteredSample)

text \<open>
  Claim C8. Each of the render methods \<^verbatim>\<open>queryCypher\<close>,
  \<^verbatim>\<open>queryPopulatedCypher\<close>, \<^verbatim>\<open>queryNodesCypher\<close> and \<^verbatim>\<open>countCypher\<close> leaves
  the builder, every field of it, as it was, and two consecutive calls of one of
  them with the same arguments return the same string.
\<close>

theorem render_methods_pure:
  "stateAfter queryCypher this = this
   \<and> stateAfter queryPopulatedCypher this = this
   \<and> stateAfter (queryNodesCypher nodes d) this = this
   \<and> stateAfter countCypher this = this
   \<and> resultOf (do { a \<leftarrow> queryCypher; b \<leftarrow> queryCypher; State_Monad.return (a = b) }) this
   \<and> resultOf (do { a \<leftarrow> queryPopulatedCypher; b \<leftarrow> queryPopulatedCypher;
                    State_Monad.return (a = b) }) this
   \<and> resultOf (do { a \<leftarrow> queryNodesCypher nodes d; b \<leftarrow> queryNodesCypher nodes d;
                    State_Monad.return (a = b) }) this
   \<and> resultOf (do { a \<leftarrow> countCypher; b \<leftarrow> countCypher; State_Monad.return (a = b) }) this"
  by (simp add: stateAfter_def resultOf_def queryCypher_def queryPopulatedCypher_def
      run_queryCypherBuilder run_queryNodesCypher run_countCypher)

theorem render_methods_pure_witness:
  "stateAfter queryCypher filteredSample = filteredSample
   \<and> stateAfter queryPopulatedCypher filteredSample = filteredSample
   \<and> stateAfter (queryNodesCypher (JStr ''end'') JUndefined) filteredSample = filteredSample
   \<and> stateAfter countCypher filteredSample = filteredSample
   \<and> resultOf (do { a \<leftarrow> queryPopulatedCypher; b \<leftarrow> queryPopulatedCypher;
                    State_Monad.return (a = b) }) filteredSample"
  using render_methods_pure [of filteredSample "JStr ''end''" JUndefined]
  by blast

text \<open>
  Claim C2, as amended. A setter call other than \<^verbatim>\<open>descOrderBy\<close> and
  \<^verbatim>\<open>ascOrderBy\<close>, all of whose arguments have an invalid type, is ignored: the
  builder is left as it was, and so is every query rendered afterwards. In
  \<^verbatim>\<open>startNode\<close> and \<^verbatim>\<open>endNode\<close> each argument is judged alone: a non-integer
  id leaves the stored id, a non-string label leaves the stored label.
  \<^verbatim>\<open>descOrderBy\<close> and \<^verbatim>\<open>ascOrderBy\<close> validate nothing: they replace the
  ordering descriptor by their arguments, whatever these are.
\<close>

theorem invalid_arguments_ignored:
  "(invalidArguments c \<and> \<not> isOrderCall c \<longrightarrow>
      stateAfter (perform c) this = this
      \<and> resultOf (do { perform c; queryCypher }) this = resultOf queryCypher this
      \<and> resultOf (do { perform c; queryPopulatedCypher }) this = resultOf queryPopulatedCypher this
      \<and> resultOf (do { perform c; queryNodesCypher nodes d }) this =
          resultOf (queryNodesCypher nodes d) this
      \<and> resultOf (do { perform c; countCypher }) this = resultOf countCypher this)
   \<and> (\<not> isInteger i \<longrightarrow>
        p_startNodeId (stateAfter (startNode i l) this) = p_startNodeId this
        \<and> p_endNodeId (stateAfter (endNode i l) this) = p_endNodeId this)
   \<and> (\<not> isString l \<longrightarrow>
        p_startNodeLabel (stateAfter (startNode i l) this) = p_startNodeLabel this
        \<and> p_endNodeLabel (stateAfter (endNode i l) this) = p_endNodeLabel this)
   \<and> (isOrderCall c \<longrightarrow> p_orderBy (stateAfter (perform c) this) = descriptorOf c)"
proof -
  have unchanged: "stateAfter (perform c) this = this" if "invalidArguments c" "\<not> isOrderCall c"
    using setter_ignores_invalid [OF that] by (simp add: stateAfter_def)
  have renders: "resultOf (do { perform c; m }) this = resultOf m this"
    if "invalidArguments c" "\<not> isOrderCall c" for m :: "string meth"
    using setter_ignores_invalid [OF that] by (simp add: resultOf_def del: perform.simps)
  have ids: "p_startNodeId (stateAfter (startNode i l) this) = p_startNodeId this
             \<and> p_endNodeId (stateAfter (endNode i l) this) = p_endNodeId this"
    if "\<not> isInteger i"
    using that by (cases i) (simp_all add: startNode_fields endNode_fields)
  have labels: "p_startNodeLabel (stateAfter (startNode i l) this) = p_startNodeLabel this
                \<and> p_endNodeLabel (stateAfter (endNode i l) this) = p_endNodeLabel this"
    if "\<not> isString l"
    using that by (cases l) (simp_all add: startNode_fields endNode_fields)
  have orders: "p_orderBy (stateAfter (perform c) this) = descriptorOf c" if "isOrderCall c"
    using that by (simp add: order_call_state)
  from unchanged renders ids labels orders show ?thesis
    by blast
qed

theorem invalid_arguments_ignored_witness:
  "invalidArguments (Limit (JStr ''ten'')) \<and> \<not> isOrderCall (Limit (JStr ''ten''))
   \<and> \<not> isInteger (JStr ''7'') \<and> \<not> isString JUndefined \<and> isOrderCall (DescOrderBy (JInt 42))
   \<and> stateAfter (perform (Limit (JStr ''ten''))) orderedSample = orderedSample
   \<and> resultOf (do { perform (Limit (JStr ''ten'')); queryCypher }) orderedSample =
       ''MATCH p=(n1)-[r:knows]->(n2)  RETURN r ORDER BY r.name ASC''
   \<and> p_startNodeId (stateAfter (startNode (JStr ''7'') JUndefined) orderedSample) = None
   \<and> p_startNodeLabel (stateAfter (startNode (JStr ''7'') JUndefined) orderedSample) = None
   \<and> p_orderBy (stateAfter (perform (DescOrderBy (JInt 42))) orderedSample) =
       Some \<lparr>properties = JInt 42, startNodeProperties = JUndefined,
             endNodeProperties = JUndefined, order = DESC\<rparr>"
  using invalid_arguments_ignored [of "Limit (JStr ''ten'')" orderedSample JUndefined JUndefined
      "JStr ''7''" JUndefined]
    invalid_arguments_ignored [of "DescOrderBy (JInt 42)" orderedSample JUndefined JUndefined
      "JStr ''7''" JUndefined]
  by (simp add: queryCypher_orderedSample orderedSample_fields del: perform.simps)

text \<open>
  The claim as stated fails for the ordering setters: on a builder ordered by
  \<^verbatim>\<open>name\<close>, \<^verbatim>\<open>descOrderBy(42)\<close> has an argument of invalid type, yet it changes
  the builder, and the query rendered afterwards has lost its order-by clause.
\<close>

theorem invalid_order_argument_counterexample:
  "\<not> isValidPropertiesArray (JInt 42)
   \<and> stateAfter (descOrderBy (JInt 42)) orderedSample \<noteq> orderedSample
   \<and> resultOf queryCypher orderedSample =
       ''MATCH p=(n1)-[r:knows]->(n2)  RETURN r ORDER BY r.name ASC''
   \<and> resultOf queryCypher (stateAfter (descOrderBy (JInt 42)) orderedSample) =
       ''MATCH p=(n1)-[r:knows]->(n2)  RETURN r''"
proof -
  have "p_orderBy (stateAfter (descOrderBy (JInt 42)) orderedSample) \<noteq> p_orderBy orderedSample"
    by (simp add: stateAfter_def descOrderBy_def orderedSample_fields)
  then have changed: "stateAfter (descOrderBy (JInt 42)) orderedSample \<noteq> orderedSample"
    by auto
  have "resultOf queryCypher (stateAfter (descOrderBy (JInt 42)) orderedSample) =
          ''MATCH p=(n1)-[r:knows]->(n2)  RETURN r''"
    by (simp add: result_simps stateAfter_def descOrderBy_def orderedSample_fields)
  with changed show ?thesis
    by (simp add: queryCypher_orderedSample)
qed

text \<open>
  Claim C4, as amended. For every builder state, \<^verbatim>\<open>countCypher\<close> renders the
  match pattern, a space, the where clause and then exactly the text
  \<^verbatim>\<open> RETURN COUNT(r) as count\<close>, with \<^verbatim>\<open>as\<close> in lower case; the result does
  not depend on the limit, on the ordering descriptor or on any of the three
  projections, so none of them is ever rendered.
\<close>

theorem count_query_shape:
  "resultOf countCypher this =
     matchPattern this @ '' '' @ resultOf whereCypher this @ '' RETURN COUNT(r) as count''
   \<and> resultOf countCypher
        (this\<lparr>p_limit := lim, p_orderBy := ob, p_returnStart := rs, p_returnEnd := re,
              p_returnRelation := rr\<rparr>) = resultOf countCypher this"
  by (simp add: result_countCypher resultOfI [OF run_matchCypher] resultOfI [OF run_whereCypher]
      whereTerms_frame matchPattern_def)

theorem count_query_shape_witness:
  "resultOf countCypher filteredSample =
     ''MATCH p=(n1)-[r:knows]->(n2) WHERE ID(n1) = 3 AND r.value > 2 RETURN COUNT(r) as count''
   \<and> resultOf countCypher
        (filteredSample\<lparr>p_limit := Some 5, p_orderBy := p_orderBy orderedSample,
              p_returnStart := None, p_returnEnd := Some ''n2.name'',
              p_returnRelation := Some ''r.since''\<rparr>) = resultOf countCypher filteredSample"
  using count_query_shape [where this = filteredSample and lim = "Some 5"
      and ob = "p_orderBy orderedSample" and rs = None and re = "Some ''n2.name''"
      and rr = "Some ''r.since''"]
  by (auto simp add: matchPattern_def labelToken_def filteredSample_fields
      whereCypher_filteredSample)

text \<open>
  The claim as stated, with \<^verbatim>\<open>AS\<close> in upper case, fails on the text: the count
  query of a builder with no constraint but its type does not end with
  \<^verbatim>\<open>RETURN COUNT(r) AS count\<close>.
\<close>

theorem count_keyword_counterexample:
  "resultOf countCypher orderedSample = ''MATCH p=(n1)-[r:knows]->(n2)  RETURN COUNT(r) as count''
   \<and> \<not> suffix ''RETURN COUNT(r) AS count'' (resultOf countCypher orderedSample)"
proof -
  have rendered: "resultOf countCypher orderedSample =
                ''MATCH p=(n1)-[r:knows]->(n2)  RETURN COUNT(r) as count''"
    by (simp add: result_simps orderedSample_fields)
  show ?thesis
    unfolding rendered by (simp add: suffix_to_prefix)
qed

text \<open>
  Claim C5, where the code departs from it. \<^verbatim>\<open>limit(0)\<close> stores the integer
  \<open>0\<close>, as the claim says of every integer, but \<^verbatim>\<open>limitClause\<close> tests the field
  for truthiness, so no \<^verbatim>\<open>LIMIT\<close> clause is rendered for it: a limit is set and
  the query has no limit clause.
\<close>

theorem limit_zero_dropped:
  "p_limit (stateAfter (limit (JInt 0)) this) = Some 0
   \<and> resultOf limitClause (stateAfter (limit (JInt 0)) this) = []
   \<and> resultOf queryCypher (stateAfter (limit (JInt 0)) (create (JStr ''knows'') sampleHeap)) =
       ''MATCH p=(n1)-[r:knows]->(n2)  RETURN r''"
  by (simp add: state_simps result_simps)

text \<open>
  Claim C6. After any non-empty sequence of \<^verbatim>\<open>descOrderBy\<close> and
  \<^verbatim>\<open>ascOrderBy\<close> calls, the ordering descriptor of the builder is the one that
  the last call establishes, its direction with its property lists; it is the
  descriptor that the last call alone leaves on any other builder, and so is the
  order-by clause rendered from it: nothing of an earlier ordering remains.
\<close>

theorem last_order_call_wins:
  assumes "cs \<noteq> []" and "list_all isOrderCall cs"
  shows "p_orderBy (stateAfter (performAll cs) this) = descriptorOf (last cs)
         \<and> descriptorOf (last cs) \<noteq> None
         \<and> p_orderBy (stateAfter (performAll cs) this) =
             p_orderBy (stateAfter (perform (last cs)) other)
         \<and> resultOf orderByClause (stateAfter (performAll cs) this) =
             resultOf orderByClause (stateAfter (perform (last cs)) other)"
proof -
  from assms have l: "isOrderCall (last cs)"
    by (simp add: list_all_iff)
  then have "descriptorOf (last cs) \<noteq> None"
    by (cases "last cs") simp_all
  with assms l show ?thesis
    by (simp add: order_calls_state order_call_state resultOfI [OF run_orderByClause])
qed

theorem last_order_call_wins_witness:
  "[AscOrderBy (JStr ''name'') (JStr ''age'') JUndefined, DescOrderBy (JStr ''value'')] \<noteq> []
   \<and> list_all isOrderCall
        [AscOrderBy (JStr ''name'') (JStr ''age'') JUndefined, DescOrderBy (JStr ''value'')]
   \<and> p_orderBy (stateAfter (performAll
        [AscOrderBy (JStr ''name'') (JStr ''age'') JUndefined, DescOrderBy (JStr ''value'')])
        orderedSample) =
       Some \<lparr>properties = JStr ''value'', startNodeProperties = JUndefined,
             endNodeProperties = JUndefined, order = DESC\<rparr>
   \<and> resultOf orderByClause (stateAfter (performAll
        [AscOrderBy (JStr ''name'') (JStr ''age'') JUndefined, DescOrderBy (JStr ''value'')])
        orderedSample) = ''ORDER BY r.value DESC''"
proof -
  let ?cs = "[AscOrderBy (JStr ''name'') (JStr ''age'') JUndefined, DescOrderBy (JStr ''value'')]"
  have calls: "?cs \<noteq> []" "list_all isOrderCall ?cs"
    by simp_all
  have alone: "resultOf orderByClause (stateAfter (perform (last ?cs)) filteredSample) =
                 ''ORDER BY r.value DESC''"
    by (simp add: resultOfI [OF run_orderByClause] stateAfter_def descOrderBy_def orderByText_def
        renderedLists_def parsePropertiesArray_def)
  from last_order_call_wins [OF calls, of orderedSample filteredSample] alone calls
  show ?thesis
    by (simp del: performAll.simps perform.simps)
qed

text \<open>
  Claim C7. For every builder state, \<^verbatim>\<open>orderByClause\<close> renders nothing when no
  ordering descriptor is set; when one is set it renders \<^verbatim>\<open>ORDER BY\<close>, the
  rendered relation, start-node and end-node property lists in that order, the
  absent and the invalid ones skipped, joined by commas, and then one direction
  keyword, \<^verbatim>\<open>ASC\<close> or \<^verbatim>\<open>DESC\<close>, for all of them; with no valid list at all
  it renders nothing.
\<close>

theorem orderBy_clause_shape:
  "resultOf orderByClause this =
     (case p_orderBy this of
        None \<Rightarrow> []
      | Some d \<Rightarrow>
          if renderedLists d = [] then []
          else ''ORDER BY '' @ join '', '' (renderedLists d) @ '' '' @ directionKeyword (order d))
   \<and> (directionKeyword x = ''ASC'' \<or> directionKeyword x = ''DESC'')"
proof -
  have "directionKeyword x = ''ASC'' \<or> directionKeyword x = ''DESC''"
    by (cases x) simp_all
  then show ?thesis
    by (simp add: resultOfI [OF run_orderByClause] orderByText_def)
qed

theorem orderBy_clause_shape_witness:
  "resultOf orderByClause
     (stateAfter (ascOrderBy (JStr ''since'') (JInt 5) (JArr [JStr ''name'', JStr ''age'']))
        orderedSample) = ''ORDER BY r.since, n2.name, n2.age ASC''
   \<and> resultOf orderByClause filteredSample = []
   \<and> directionKeyword DESC = ''DESC''"
proof -
  let ?b = "stateAfter (ascOrderBy (JStr ''since'') (JInt 5) (JArr [JStr ''name'', JStr ''age'']))
              orderedSample"
  have descriptor: "p_orderBy ?b =
      Some \<lparr>properties = JStr ''since'', startNodeProperties = JInt 5,
            endNodeProperties = JArr [JStr ''name'', JStr ''age''], order = ASC\<rparr>"
    by (simp add: stateAfter_def ascOrderBy_def withDefault_def)
  from orderBy_clause_shape [of ?b DESC] orderBy_clause_shape [of filteredSample DESC]
  show ?thesis
    by (simp add: descriptor filteredSample_fields renderedLists_def parsePropertiesArray_def)
qed

text \<open>
  Claim C9. For every builder state that the constructor and the setters can
  build, the return clause is \<^verbatim>\<open>RETURN\<close> and the relation projection, which is
  the bare token \<^verbatim>\<open>r\<close> when none is set; in the populated variant it goes on,
  separated by commas, with the start-node projection (\<^verbatim>\<open>n1\<close> when none is set)
  and then the end-node projection (\<^verbatim>\<open>n2\<close> when none is set).
\<close>

theorem return_clause_shape:
  assumes "this = stateAfter (performAll cs) (create ty h)"
  shows "resultOf (returnClause False) this = ''RETURN '' @ projection (p_returnRelation this) ''r''
         \<and> resultOf (returnClause True) this =
             ''RETURN '' @ projection (p_returnRelation this) ''r'' @ '', '' @
             projection (p_returnStart this) ''n1'' @ '', '' @
             projection (p_returnEnd this) ''n2''"
proof -
  from assms have "projectionsNonEmpty this"
    by (simp add: projectionsNonEmpty_performAll projectionsNonEmpty_create)
  then show ?thesis
    by (simp add: resultOfI [OF run_returnClause] projectionsNonEmpty_def orElse_projection)
qed

theorem return_clause_shape_witness:
  "filteredSample =
     stateAfter (performAll [StartNode (JInt 3) JUndefined, RelationWhere (JWhere 0),
                             ReturnStartNode (JArr [JStr ''name'', JStr ''value''])])
       (create (JStr ''knows'') sampleHeap)
   \<and> resultOf (returnClause False) filteredSample = ''RETURN r''
   \<and> resultOf (returnClause True) filteredSample = ''RETURN r, n1.name, n1.value, n2''"
proof -
  have built: "filteredSample =
     stateAfter (performAll [StartNode (JInt 3) JUndefined, RelationWhere (JWhere 0),
                             ReturnStartNode (JArr [JStr ''name'', JStr ''value''])])
       (create (JStr ''knows'') sampleHeap)"
    by (simp only: filteredSample_def)
  from return_clause_shape [OF built] have
    "resultOf (returnClause False) filteredSample = ''RETURN r''
     \<and> resultOf (returnClause True) filteredSample = ''RETURN r, n1.name, n1.value, n2''"
    by (simp add: projection_def filteredSample_fields)
  with built show ?thesis
    by blast
qed

text \<open>
  Claim C10. \<^verbatim>\<open>startNode\<close> and \<^verbatim>\<open>endNode\<close> store any string as the label, the
  empty string too, where the \<^verbatim>\<open>type\<close> setter ignores the empty string; a
  stored empty label is rendered as a colon with nothing after it, the match
  pattern reading \<^verbatim>\<open>(n1:)\<close> or \<^verbatim>\<open>(n2:)\<close>, and is not left out.
\<close>

theorem empty_label_dangling_colon:
  "p_startNodeLabel (stateAfter (startNode i (JStr l)) this) = Some l
   \<and> p_endNodeLabel (stateAfter (endNode i (JStr l)) this) = Some l
   \<and> resultOf startNodeClause (stateAfter (startNode i (JStr [])) this) = ''n1:''
   \<and> resultOf endNodeClause (stateAfter (endNode i (JStr [])) this) = ''n2:''
   \<and> prefix ''MATCH p=(n1:)-[r'' (resultOf matchCypher (stateAfter (startNode i (JStr [])) this))
   \<and> resultOf matchCypher (stateAfter (endNode i (JStr [])) this) =
       ''MATCH p=(n1'' @ labelToken (p_startNodeLabel this) @ '')-[r'' @
       labelToken (p_type this) @ '']->(n2:) '' @
       resultOf whereCypher (stateAfter (endNode i (JStr [])) this)
   \<and> stateAfter (set_type (JStr [])) this = this"
  by (simp add: startNode_fields endNode_fields resultOfI [OF startNodeClause_pure]
      resultOfI [OF endNodeClause_pure] resultOfI [OF run_matchCypher] matchPattern_def
      labelToken_def)
    (simp add: stateAfter_def set_type_def)

theorem empty_label_dangling_colon_witness:
  "p_startNodeLabel (stateAfter (startNode JUndefined (JStr [])) orderedSample) = Some []
   \<and> resultOf startNodeClause (stateAfter (startNode JUndefined (JStr [])) orderedSample) = ''n1:''
   \<and> resultOf matchCypher (stateAfter (endNode JUndefined (JStr [])) orderedSample) =
       ''MATCH p=(n1)-[r:knows]->(n2:) ''
   \<and> stateAfter (set_type (JStr [])) orderedSample = orderedSample"
proof -
  have "resultOf whereCypher (stateAfter (endNode JUndefined (JStr [])) orderedSample) = []"
    by (simp add: resultOfI [OF run_whereCypher] whereTerms_def endNode_fields
        orderedSample_fields)
  with empty_label_dangling_colon [of JUndefined "[]" orderedSample] show ?thesis
    by (simp add: labelToken_def orderedSample_fields)
qed

end
